theory Spec2Isabelle
  imports Main
begin

section \<open>JavaScript values, completions and the store\<close>

text \<open>
  \<^verbatim>\<open>match.ts\<close> throws \<^verbatim>\<open>new Error(message)\<close>; the built-in operations it calls
  (\<^verbatim>\<open>Array.prototype.join\<close>, a call of a value that is not a function) throw a
  \<^verbatim>\<open>TypeError\<close>, whose message is left to the engine.
\<close>

datatype js_error = Error string | TypeError

text \<open>
  The payload is typed \<^verbatim>\<open>any[]\<close>. The values modelled are the primitives and references
  to objects (arrays and functions as payload values are left out). \<open>JNum n\<close> is the Number whose value is the integer \<open>n\<close> (a safe integer,
  printed in decimal). \<open>JObject i r\<close> is the reference to the object with identity \<open>i\<close>;
  \<open>r\<close> is the completion of that object's own conversion to a string (what its
  \<^verbatim>\<open>toString\<close> yields or throws); an object literal has \<open>r = Inr ''[object Object]''\<close>.
  Only objects whose string conversion returns or throws without writing the store are
  covered: a \<^verbatim>\<open>toString\<close> method that assigns to an array or does not return has no
  counterpart here.
\<close>

datatype jsval =
    JUndefined
  | JNull
  | JBool bool
  | JNum int
  | JStr string
  | JSymbol string
  | JObject nat "js_error + string"

text \<open>
  Arrays are mutable and handed around by reference, so they live in a store. A cell holds
  the elements of one array; \<open>next_ref\<close> is the next unused reference.
\<close>

type_synonym ref = nat

record heap =
  arrays :: "ref \<Rightarrow> jsval list"
  next_ref :: ref

text \<open>
  A computation runs on a store and either does not return (\<open>None\<close>) or completes, normally
  (\<open>Inr\<close>) or by a throw (\<open>Inl\<close>), leaving a store.
\<close>

type_synonym 'a comp = "heap \<Rightarrow> ((js_error + 'a) \<times> heap) option"

definition returns :: "'a \<Rightarrow> 'a comp" where
  "returns v h = Some (Inr v, h)"

definition throws :: "js_error \<Rightarrow> 'a comp" where
  "throws e h = Some (Inl e, h)"

text \<open>A rest parameter \<^verbatim>\<open>...args\<close> collects the call's arguments in a new array.\<close>

definition new_array :: "jsval list \<Rightarrow> heap \<Rightarrow> ref \<times> heap" where
  "new_array xs h =
     (next_ref h, h\<lparr>arrays := (arrays h)(next_ref h := xs), next_ref := Suc (next_ref h)\<rparr>)"

text \<open>
  What a caller holding an array reference can do: the assignment \<^verbatim>\<open>a[i] = v\<close>. Beyond the
  end, JavaScript extends the array; the positions skipped read as \<^verbatim>\<open>undefined\<close>.
\<close>

definition array_store :: "ref \<Rightarrow> nat \<Rightarrow> jsval \<Rightarrow> heap \<Rightarrow> heap" where
  "array_store a i v h =
     h\<lparr>arrays := (arrays h)
        (a := (if i < length (arrays h a) then (arrays h a)[i := v]
               else arrays h a @ replicate (i - length (arrays h a)) JUndefined @ [v]))\<rparr>"

section \<open>String conversion and \<^verbatim>\<open>Array.prototype.join\<close>\<close>

fun digits :: "nat \<Rightarrow> string" where
  "digits n =
     (if n < 10 then [''0123456789'' ! n]
      else digits (n div 10) @ [''0123456789'' ! (n mod 10)])"

declare digits.simps [simp del]

definition Number_toString :: "int \<Rightarrow> string" where
  "Number_toString n = (if n < 0 then ''-'' @ digits (nat (- n)) else digits (nat n))"

text \<open>The abstract operation ToString of ECMAScript; a Symbol has no string conversion.\<close>

fun ToString :: "jsval \<Rightarrow> js_error + string" where
  "ToString JUndefined = Inr ''undefined''"
| "ToString JNull = Inr ''null''"
| "ToString (JBool b) = Inr (if b then ''true'' else ''false'')"
| "ToString (JNum n) = Inr (Number_toString n)"
| "ToString (JStr s) = Inr s"
| "ToString (JSymbol d) = Inl TypeError"
| "ToString (JObject i r) = r"

text \<open>
  \<^verbatim>\<open>Array.prototype.join\<close>: the elements in order, the separator before every element but
  the first; \<^verbatim>\<open>undefined\<close> and \<^verbatim>\<open>null\<close> contribute the empty string, every other
  element its ToString. \<open>R\<close> is the string built so far, \<open>k\<close> the index reached.
\<close>

definition join_element :: "jsval \<Rightarrow> js_error + string" where
  "join_element v = (if v = JUndefined \<or> v = JNull then Inr [] else ToString v)"

fun join_loop :: "string \<Rightarrow> string \<Rightarrow> nat \<Rightarrow> jsval list \<Rightarrow> js_error + string" where
  "join_loop sep R k [] = Inr R"
| "join_loop sep R k (x # xs) =
     (case join_element x of
        Inl e \<Rightarrow> Inl e
      | Inr s \<Rightarrow> join_loop sep (R @ (if 0 < k then sep else []) @ s) (Suc k) xs)"

definition Array_join :: "string \<Rightarrow> jsval list \<Rightarrow> js_error + string" where
  "Array_join sep xs = join_loop sep [] 0 xs"

section \<open>The variant descriptor and the \<^verbatim>\<open>Enum\<close> base class\<close>

text \<open>
  \<^verbatim>\<open>interface EnumVariant { name: string; args?: any[] }\<close>: \<open>args\<close> is optional;
  when present it is a reference to an array.
\<close>

record EnumVariant =
  name :: string
  args :: "ref option"

text \<open>
  \<^verbatim>\<open>private variant: EnumVariant\<close>: the field is private and no method assigns it or a
  field of the descriptor after the constructor, so an instance is the value of its
  descriptor; the array \<open>args\<close> refers to stays in the store.
\<close>

record Enum =
  variant :: EnumVariant

definition Enum_constructor :: "EnumVariant \<Rightarrow> Enum" where
  "Enum_constructor v = \<lparr>variant = v\<rparr>"

text \<open>
  The decorator \<^verbatim>\<open>variant(target, propertyKey, descriptor)\<close> replaces the static method by
  \<^verbatim>\<open>function (...args) { return new constructor({ name: propertyKey, args }) }\<close>, where
  \<^verbatim>\<open>constructor\<close> is the concrete class, here the parameter \<open>ctor\<close>.
\<close>

definition variant_factory ::
  "(EnumVariant \<Rightarrow> Enum) \<Rightarrow> string \<Rightarrow> jsval list \<Rightarrow> Enum comp" where
  "variant_factory ctor propertyKey xs h =
     (case new_array xs h of
        (a, h') \<Rightarrow> returns (ctor \<lparr>name = propertyKey, args = Some a\<rparr>) h')"

definition Enum_is :: "Enum \<Rightarrow> string \<Rightarrow> bool comp" where
  "Enum_is this v = returns (name (variant this) = v)"

definition EmptyPayloadError :: js_error where
  "EmptyPayloadError = Error ''Cannot unwrap a variant without arguments''"

definition Enum_unwrap :: "Enum \<Rightarrow> jsval comp" where
  "Enum_unwrap this h =
     (case args (variant this) of
        None \<Rightarrow> throws EmptyPayloadError h
      | Some a \<Rightarrow>
          if length (arrays h a) = 0 then throws EmptyPayloadError h
          else returns (arrays h a ! 0) h)"

definition Enum_unwrapTuple :: "Enum \<Rightarrow> ref comp" where
  "Enum_unwrapTuple this h =
     (case args (variant this) of
        None \<Rightarrow> throws EmptyPayloadError h
      | Some a \<Rightarrow>
          if length (arrays h a) = 0 then throws EmptyPayloadError h
          else returns a h)"

definition Enum_toString :: "Enum \<Rightarrow> string comp" where
  "Enum_toString this h =
     (case args (variant this) of
        None \<Rightarrow> returns (name (variant this)) h
      | Some a \<Rightarrow>
          if length (arrays h a) = 0 then returns (name (variant this)) h
          else (case Array_join '', '' (arrays h a) of
                  Inl e \<Rightarrow> throws e h
                | Inr s \<Rightarrow> returns (name (variant this) @ ''('' @ s @ '')'') h))"

section \<open>Pattern objects and property lookup\<close>

text \<open>
  \<^verbatim>\<open>patterns\<close> and \<^verbatim>\<open>defaultPatterns\<close> are objects whose properties are typed as handler
  functions \<^verbatim>\<open>(...args: any[]) => U\<close> or \<^verbatim>\<open>undefined\<close>. A handler is called with a list
  of arguments and is code of the caller: it may read and write the store, throw, or not
  return. A property read can also yield what the object inherits: a built-in function, or
  (for \<^verbatim>\<open>__proto__\<close>) an object that is not a function, or \<^verbatim>\<open>null\<close>.
\<close>

type_synonym handler = "jsval list \<Rightarrow> jsval comp"

datatype pval =
    PUndefined
  | PNull
  | PFunction "jsval list \<Rightarrow> heap \<Rightarrow> ((js_error + jsval) \<times> heap) option"
  | PObject

text \<open>
  A property is a data property holding a value, or the accessor \<^verbatim>\<open>__proto__\<close> of
  \<^verbatim>\<open>Object.prototype\<close>, whose getter returns the prototype of the object it is read on.
  An object has own properties and a prototype (or none).
\<close>

datatype slot = Data pval | ProtoGetter

datatype pobj = PObj "(string \<times> slot) list" "pobj option"

fun own :: "pobj \<Rightarrow> (string \<times> slot) list" where
  "own (PObj props pr) = props"

fun prototype_of :: "pobj \<Rightarrow> pobj option" where
  "prototype_of (PObj props pr) = pr"

text \<open>Ordinary property lookup: the own property, else the prototype's, up the chain.\<close>

fun lookup :: "pobj \<Rightarrow> string \<Rightarrow> slot option" where
  "lookup (PObj props pr) k =
     (case map_of props k of
        Some s \<Rightarrow> Some s
      | None \<Rightarrow> (case pr of None \<Rightarrow> None | Some p \<Rightarrow> lookup p k))"

text \<open>The property read \<^verbatim>\<open>obj[k]\<close>.\<close>

definition Get :: "pobj \<Rightarrow> string \<Rightarrow> pval" where
  "Get obj k =
     (case lookup obj k of
        None \<Rightarrow> PUndefined
      | Some (Data v) \<Rightarrow> v
      | Some ProtoGetter \<Rightarrow> (case prototype_of obj of None \<Rightarrow> PNull | Some p \<Rightarrow> PObject))"

fun truthy :: "pval \<Rightarrow> bool" where
  "truthy PUndefined = False"
| "truthy PNull = False"
| "truthy (PFunction f) = True"
| "truthy PObject = True"

fun is_function :: "pval \<Rightarrow> bool" where
  "is_function (PFunction f) = True"
| "is_function v = False"

text \<open>The call \<^verbatim>\<open>handler(...)\<close>: calling a value that is not a function throws.\<close>

fun call :: "pval \<Rightarrow> jsval list \<Rightarrow> jsval comp" where
  "call (PFunction f) xs h = f xs h"
| "call v xs h = throws TypeError h"

subsection \<open>The properties of \<^verbatim>\<open>Object.prototype\<close>\<close>

text \<open>
  An object literal inherits the properties of \<^verbatim>\<open>Object.prototype\<close>. \<^verbatim>\<open>match\<close> calls
  its handler as a plain function in strict code, so the built-in functions below are the
  ones of ECMAScript called with \<^verbatim>\<open>this\<close> undefined.
\<close>

definition arg0 :: "jsval list \<Rightarrow> jsval" where
  "arg0 xs = (case xs of [] \<Rightarrow> JUndefined | v # _ \<Rightarrow> v)"

definition new_object :: "(js_error + string) \<Rightarrow> jsval comp" where
  "new_object r h = returns (JObject (next_ref h) r) (h\<lparr>next_ref := Suc (next_ref h)\<rparr>)"

text \<open>
  \<^verbatim>\<open>Object(value)\<close>: a new empty object for \<^verbatim>\<open>undefined\<close> and \<^verbatim>\<open>null\<close>, the object
  itself for an object, a new wrapper object (which converts to a string as the primitive
  does) for any other primitive.
\<close>

definition Object_constructor :: handler where
  "Object_constructor xs h =
     (case arg0 xs of
        JUndefined \<Rightarrow> new_object (Inr ''[object Object]'') h
      | JNull \<Rightarrow> new_object (Inr ''[object Object]'') h
      | JObject i r \<Rightarrow> returns (JObject i r) h
      | v \<Rightarrow> new_object (ToString v) h)"

definition Object_prototype_toString :: handler where
  "Object_prototype_toString xs = returns (JStr ''[object Undefined]'')"

text \<open>ToObject of an undefined \<^verbatim>\<open>this\<close> throws.\<close>

definition Object_prototype_valueOf :: handler where
  "Object_prototype_valueOf xs = throws TypeError"

definition Object_prototype_toLocaleString :: handler where
  "Object_prototype_toLocaleString xs = throws TypeError"

text \<open>
  \<^verbatim>\<open>hasOwnProperty(V)\<close> and \<^verbatim>\<open>propertyIsEnumerable(V)\<close> convert \<open>V\<close> to a property key
  first (which runs the string conversion of an object), then fail on \<^verbatim>\<open>this\<close>.
\<close>

definition Object_prototype_hasOwnProperty :: handler where
  "Object_prototype_hasOwnProperty xs =
     (case arg0 xs of JObject i (Inl e) \<Rightarrow> throws e | _ \<Rightarrow> throws TypeError)"

definition Object_prototype_propertyIsEnumerable :: handler where
  "Object_prototype_propertyIsEnumerable xs =
     (case arg0 xs of JObject i (Inl e) \<Rightarrow> throws e | _ \<Rightarrow> throws TypeError)"

text \<open>\<^verbatim>\<open>isPrototypeOf(V)\<close> answers \<^verbatim>\<open>false\<close> for a primitive before it looks at \<^verbatim>\<open>this\<close>.\<close>

definition Object_prototype_isPrototypeOf :: handler where
  "Object_prototype_isPrototypeOf xs =
     (case arg0 xs of JObject i r \<Rightarrow> throws TypeError | _ \<Rightarrow> returns (JBool False))"

definition Object_prototype_defineGetter :: handler where
  "Object_prototype_defineGetter xs = throws TypeError"

definition Object_prototype_defineSetter :: handler where
  "Object_prototype_defineSetter xs = throws TypeError"

definition Object_prototype_lookupGetter :: handler where
  "Object_prototype_lookupGetter xs = throws TypeError"

definition Object_prototype_lookupSetter :: handler where
  "Object_prototype_lookupSetter xs = throws TypeError"

definition Object_prototype :: pobj where
  "Object_prototype = PObj
     [(''constructor'', Data (PFunction Object_constructor)),
      (''__defineGetter__'', Data (PFunction Object_prototype_defineGetter)),
      (''__defineSetter__'', Data (PFunction Object_prototype_defineSetter)),
      (''hasOwnProperty'', Data (PFunction Object_prototype_hasOwnProperty)),
      (''__lookupGetter__'', Data (PFunction Object_prototype_lookupGetter)),
      (''__lookupSetter__'', Data (PFunction Object_prototype_lookupSetter)),
      (''isPrototypeOf'', Data (PFunction Object_prototype_isPrototypeOf)),
      (''propertyIsEnumerable'', Data (PFunction Object_prototype_propertyIsEnumerable)),
      (''toString'', Data (PFunction Object_prototype_toString)),
      (''valueOf'', Data (PFunction Object_prototype_valueOf)),
      (''__proto__'', ProtoGetter),
      (''toLocaleString'', Data (PFunction Object_prototype_toLocaleString))]
     None"

section \<open>The dispatcher \<^verbatim>\<open>match\<close>\<close>

definition NonExhaustiveMatchError :: "string \<Rightarrow> js_error" where
  "NonExhaustiveMatchError variantName =
     Error (''Non-exhaustive pattern matching: missing handler for variant ''
            @ [CHR 0x27] @ variantName @ [CHR 0x27])"

text \<open>
  \<^verbatim>\<open>const handler = patterns[variantName] || defaultPatterns?.[variantName]\<close>: the value
  read from \<open>patterns\<close> when it is truthy, else the value read from \<open>defaultPatterns\<close>,
  \<^verbatim>\<open>undefined\<close> when that argument was not passed.
\<close>

definition resolve :: "pobj \<Rightarrow> pobj option \<Rightarrow> string \<Rightarrow> pval" where
  "resolve patterns defaultPatterns variantName =
     (if truthy (Get patterns variantName) then Get patterns variantName
      else (case defaultPatterns of
              None \<Rightarrow> PUndefined
            | Some d \<Rightarrow> Get d variantName))"

definition Enum_match :: "Enum \<Rightarrow> pobj \<Rightarrow> pobj option \<Rightarrow> jsval comp" where
  "Enum_match this patterns defaultPatterns h =
     (let variantName = name (variant this);
          handler = resolve patterns defaultPatterns variantName
      in if \<not> truthy handler then throws (NonExhaustiveMatchError variantName) h
         else (case args (variant this) of
                 None \<Rightarrow> call handler [] h
               | Some a \<Rightarrow>
                   if length (arrays h a) = 0 then call handler [] h
                   else call handler (arrays h a) h))"

section \<open>Notions of the specification\<close>

text \<open>
  The payload of an instance: the elements of its \<open>args\<close> array in order, and no value
  when the descriptor has no \<open>args\<close>.
\<close>

definition payload :: "heap \<Rightarrow> Enum \<Rightarrow> jsval list" where
  "payload h this = (case args (variant this) of None \<Rightarrow> [] | Some a \<Rightarrow> arrays h a)"


text \<open>Strings joined by a separator, as \<open>p1, p2, ...\<close> is written in the specification.\<close>

fun separated :: "string \<Rightarrow> string list \<Rightarrow> string" where
  "separated sep [] = []"
| "separated sep [s] = s"
| "separated sep (s # t # ss) = s @ sep @ separated sep (t # ss)"

section \<open>Example callers\<close>

text \<open>The store before any array has been created.\<close>

definition empty_heap :: heap where
  "empty_heap = \<lparr>arrays = (\<lambda>a. []), next_ref = 0\<rparr>"

text \<open>
  The handlers of the scenario in the specification,
  \<^verbatim>\<open>{ Active: () => "ok", Failed: (c) => `err:${c}` }\<close>.
\<close>

definition handler_ok :: handler where
  "handler_ok xs = returns (JStr ''ok'')"

definition handler_err :: handler where
  "handler_err xs =
     (case ToString (arg0 xs) of
        Inl e \<Rightarrow> throws e
      | Inr s \<Rightarrow> returns (JStr (''err:'' @ s)))"

text \<open>
  A handler that assigns to an array of the caller, \<^verbatim>\<open>() => { log[0] = 1 }\<close> with
  \<open>log\<close> the array at reference 0, and a handler that never returns,
  \<^verbatim>\<open>() => { while (true) {} }\<close>.
\<close>

definition handler_writing :: handler where
  "handler_writing xs h = returns JUndefined (array_store 0 0 (JNum 1) h)"

definition handler_looping :: handler where
  "handler_looping xs h = None"

text \<open>
  The store after one array holding \<open>xs\<close> has been created in the empty store (it is the
  array at reference 0), and the instance of the variant \<open>n\<close> whose \<open>args\<close> is that array.
\<close>

definition heap_after_new :: "jsval list \<Rightarrow> heap" where
  "heap_after_new xs = snd (new_array xs empty_heap)"

definition instance0 :: "string \<Rightarrow> Enum" where
  "instance0 n = Enum_constructor \<lparr>name = n, args = Some 0\<rparr>"

text \<open>
  The store after a second array holding \<open>ys\<close> has been created (at reference 1), and the
  instance of the variant \<open>n\<close> whose \<open>args\<close> is that second array.
\<close>

definition heap_after_second :: "jsval list \<Rightarrow> jsval list \<Rightarrow> heap" where
  "heap_after_second xs ys = snd (new_array ys (heap_after_new xs))"

definition instance1 :: "string \<Rightarrow> Enum" where
  "instance1 n = Enum_constructor \<lparr>name = n, args = Some 1\<rparr>"

text \<open>
  Object literals: \<^verbatim>\<open>{}\<close>, \<^verbatim>\<open>{ Active: ..., Failed: ... }\<close>, \<^verbatim>\<open>{ Active: ... }\<close> and
  \<^verbatim>\<open>{ Failed: ... }\<close>. The prototype of an object literal is \<^verbatim>\<open>Object.prototype\<close>.
\<close>

definition patterns_none :: pobj where
  "patterns_none = PObj [] (Some Object_prototype)"

definition patterns_both :: pobj where
  "patterns_both = PObj
     [(''Active'', Data (PFunction handler_ok)), (''Failed'', Data (PFunction handler_err))]
     (Some Object_prototype)"

definition patterns_active :: pobj where
  "patterns_active = PObj [(''Active'', Data (PFunction handler_ok))] (Some Object_prototype)"


definition patterns_looping :: pobj where
  "patterns_looping =
     PObj [(''Active'', Data (PFunction handler_looping))] (Some Object_prototype)"

definition patterns_writing :: pobj where
  "patterns_writing =
     PObj [(''Active'', Data (PFunction handler_writing))] (Some Object_prototype)"


text \<open>The object \<^verbatim>\<open>{ Failed: null }\<close>.\<close>

definition patterns_null :: pobj where
  "patterns_null = PObj [(''Failed'', Data PNull)] (Some Object_prototype)"

section \<open>Auxiliary facts\<close>

lemma separated_Cons:
  "separated sep (s # ss) = s @ (if ss = [] then [] else sep) @ separated sep ss"
  by (cases ss) simp_all

lemma join_loop_converted:
  "map join_element xs = map Inr ss \<Longrightarrow>
   join_loop sep R k xs = Inr (R @ (if 0 < k \<and> xs \<noteq> [] then sep else []) @ separated sep ss)"
proof (induction xs arbitrary: R k ss)
  case Nil
  then show ?case by simp
next
  case (Cons x xs)
  then obtain s ss' where ss: "ss = s # ss'" and x: "join_element x = Inr s"
    and rest: "map join_element xs = map Inr ss'"
    by (cases ss) auto
  from rest have "length xs = length ss'"
    by (metis length_map)
  then have empty: "xs = [] \<longleftrightarrow> ss' = []"
    by auto
  show ?case
    using Cons.IH [OF rest, of "R @ (if 0 < k then sep else []) @ s" "Suc k"] x empty
    by (simp add: ss separated_Cons)
qed

lemma join_loop_failing:
  "map join_element pre = map Inr ss \<Longrightarrow> join_element x = Inl e \<Longrightarrow>
   join_loop sep R k (pre @ x # post) = Inl e"
proof (induction pre arbitrary: R k ss)
  case Nil
  then show ?case by simp
next
  case (Cons y ys)
  then obtain s ss' where "ss = s # ss'" and y: "join_element y = Inr s"
    and rest: "map join_element ys = map Inr ss'"
    by (cases ss) auto
  then show ?case
    using Cons.IH [OF rest Cons.prems(2)] by simp
qed

lemma Array_join_converted:
  "xs \<noteq> [] \<Longrightarrow> map join_element xs = map Inr ss \<Longrightarrow>
   Array_join sep xs = Inr (separated sep ss)"
  by (simp add: Array_join_def join_loop_converted)

lemma Array_join_failing:
  "map join_element pre = map Inr ss \<Longrightarrow> join_element x = Inl e \<Longrightarrow>
   Array_join sep (pre @ x # post) = Inl e"
  by (simp add: Array_join_def join_loop_failing)

lemma call_not_function: "\<not> is_function v \<Longrightarrow> call v xs h = throws TypeError h"
  by (cases v) simp_all

lemma match_resolved_function:
  "resolve patterns defaultPatterns (name (variant this)) = PFunction f \<Longrightarrow>
   Enum_match this patterns defaultPatterns h = f (payload h this) h"
  by (simp add: Enum_match_def Let_def payload_def split: option.splits)

lemma match_resolved_falsy:
  "\<not> truthy (resolve patterns defaultPatterns (name (variant this))) \<Longrightarrow>
   Enum_match this patterns defaultPatterns h
     = throws (NonExhaustiveMatchError (name (variant this))) h"
  by (simp add: Enum_match_def Let_def)

lemma match_resolved_not_callable:
  "truthy (resolve patterns defaultPatterns (name (variant this))) \<Longrightarrow>
   \<not> is_function (resolve patterns defaultPatterns (name (variant this))) \<Longrightarrow>
   Enum_match this patterns defaultPatterns h = throws TypeError h"
  by (simp add: Enum_match_def Let_def call_not_function split: option.splits)

lemmas example_defs =
  heap_after_new_def new_array_def empty_heap_def instance0_def Enum_constructor_def
  payload_def returns_def throws_def

lemmas lookup_defs = Object_prototype_def Get_def resolve_def

section \<open>Construction and introspection\<close>




section \<open>Unwrapping\<close>

text \<open>
  C4. An instance whose payload is empty, whatever its variant name, makes both
  \<^verbatim>\<open>unwrap()\<close> and \<^verbatim>\<open>unwrapTuple()\<close> fail with the error of an empty payload, whose
  message is the one the source throws.
\<close>

theorem unwrap_fails_on_empty_payload:
  assumes "payload h this = []"
  shows "Enum_unwrap this h = throws EmptyPayloadError h
       \<and> Enum_unwrapTuple this h = throws EmptyPayloadError h
       \<and> EmptyPayloadError = Error ''Cannot unwrap a variant without arguments''"
  using assms
  by (simp add: payload_def Enum_unwrap_def Enum_unwrapTuple_def EmptyPayloadError_def
      split: option.splits)

theorem unwrap_fails_on_empty_payload_witness:
  "payload (heap_after_new []) (instance0 ''Active'') = []
   \<and> Enum_unwrap (instance0 ''Active'') (heap_after_new [])
       = throws EmptyPayloadError (heap_after_new [])
   \<and> Enum_unwrapTuple (instance0 ''Active'') (heap_after_new [])
       = throws EmptyPayloadError (heap_after_new [])"
proof -
  have empty: "payload (heap_after_new []) (instance0 ''Active'') = []"
    by (simp add: example_defs)
  from unwrap_fails_on_empty_payload [OF empty] empty show ?thesis
    by simp
qed

text \<open>
  C6. On an instance with a non-empty payload, \<^verbatim>\<open>unwrap()\<close> returns the element stored at
  position 0 as it is, whatever the variant name, and \<^verbatim>\<open>unwrapTuple()\<close> returns the
  payload array, whose elements are the payload in its order.
\<close>

theorem unwrap_returns_first_element:
  assumes "args (variant this) = Some a" and "arrays h a = x # xs"
  shows "Enum_unwrap this h = returns x h
       \<and> Enum_unwrap (Enum_constructor \<lparr>name = n, args = Some a\<rparr>) h = returns x h
       \<and> Enum_unwrapTuple this h = returns a h
       \<and> payload h this = x # xs"
  using assms
  by (simp add: Enum_unwrap_def Enum_unwrapTuple_def Enum_constructor_def payload_def)

theorem unwrap_returns_first_element_witness:
  "args (variant (instance0 ''Failed'')) = Some 0
   \<and> arrays (heap_after_new [JNum 404, JStr ''gone'']) 0 = [JNum 404, JStr ''gone'']
   \<and> Enum_unwrap (instance0 ''Failed'') (heap_after_new [JNum 404, JStr ''gone''])
       = returns (JNum 404) (heap_after_new [JNum 404, JStr ''gone''])
   \<and> Enum_unwrapTuple (instance0 ''Failed'') (heap_after_new [JNum 404, JStr ''gone''])
       = returns 0 (heap_after_new [JNum 404, JStr ''gone''])"
proof -
  have a: "args (variant (instance0 ''Failed'')) = Some 0"
    by (simp add: example_defs)
  have b: "arrays (heap_after_new [JNum 404, JStr ''gone'']) 0 = [JNum 404, JStr ''gone'']"
    by (simp add: example_defs)
  from unwrap_returns_first_element [OF a b] a b show ?thesis
    by simp
qed

text \<open>
  C9. A descriptor without \<open>args\<close> behaves as one whose \<open>args\<close> array is empty:
  \<^verbatim>\<open>toString()\<close> gives the bare name, \<^verbatim>\<open>unwrap()\<close> and \<^verbatim>\<open>unwrapTuple()\<close> fail with the
  same error, and \<^verbatim>\<open>match\<close> does the same in both cases, calling the handler it resolves
  with no argument.
\<close>

theorem absent_args_behave_as_empty_args:
  assumes "arrays h a = []"
  shows "Enum_toString (Enum_constructor \<lparr>name = n, args = None\<rparr>) h = returns n h
       \<and> Enum_toString (Enum_constructor \<lparr>name = n, args = Some a\<rparr>) h = returns n h
       \<and> Enum_unwrap (Enum_constructor \<lparr>name = n, args = None\<rparr>) h
           = throws EmptyPayloadError h
       \<and> Enum_unwrap (Enum_constructor \<lparr>name = n, args = Some a\<rparr>) h
           = throws EmptyPayloadError h
       \<and> Enum_unwrapTuple (Enum_constructor \<lparr>name = n, args = None\<rparr>) h
           = throws EmptyPayloadError h
       \<and> Enum_unwrapTuple (Enum_constructor \<lparr>name = n, args = Some a\<rparr>) h
           = throws EmptyPayloadError h
       \<and> Enum_match (Enum_constructor \<lparr>name = n, args = None\<rparr>) patterns defaultPatterns h
           = Enum_match (Enum_constructor \<lparr>name = n, args = Some a\<rparr>) patterns defaultPatterns h
       \<and> (resolve patterns defaultPatterns n = PFunction f \<longrightarrow>
            Enum_match (Enum_constructor \<lparr>name = n, args = None\<rparr>) patterns defaultPatterns h
              = f [] h)"
  using assms
  by (simp add: Enum_toString_def Enum_unwrap_def Enum_unwrapTuple_def Enum_match_def
      Enum_constructor_def Let_def)

theorem absent_args_behave_as_empty_args_witness:
  "arrays (heap_after_new []) 0 = []
   \<and> resolve patterns_both None ''Active'' = PFunction handler_ok
   \<and> Enum_toString (Enum_constructor \<lparr>name = ''Active'', args = None\<rparr>) (heap_after_new [])
       = returns ''Active'' (heap_after_new [])
   \<and> Enum_toString (Enum_constructor \<lparr>name = ''Active'', args = Some 0\<rparr>) (heap_after_new [])
       = returns ''Active'' (heap_after_new [])
   \<and> Enum_match (Enum_constructor \<lparr>name = ''Active'', args = None\<rparr>) patterns_both None
         (heap_after_new [])
       = returns (JStr ''ok'') (heap_after_new [])
   \<and> Enum_match (Enum_constructor \<lparr>name = ''Active'', args = Some 0\<rparr>) patterns_both None
         (heap_after_new [])
       = returns (JStr ''ok'') (heap_after_new [])"
proof -
  have empty: "arrays (heap_after_new []) 0 = []"
    by (simp add: example_defs)
  have resolved: "resolve patterns_both None ''Active'' = PFunction handler_ok"
    by (simp add: lookup_defs patterns_both_def)
  note at_active = absent_args_behave_as_empty_args
         [OF empty, of "''Active''" patterns_both None handler_ok]
  from at_active have toString_absent:
    "Enum_toString (Enum_constructor \<lparr>name = ''Active'', args = None\<rparr>) (heap_after_new [])
       = returns ''Active'' (heap_after_new [])"
    by blast
  from at_active have toString_empty:
    "Enum_toString (Enum_constructor \<lparr>name = ''Active'', args = Some 0\<rparr>) (heap_after_new [])
       = returns ''Active'' (heap_after_new [])"
    by blast
  from at_active resolved have match_absent:
    "Enum_match (Enum_constructor \<lparr>name = ''Active'', args = None\<rparr>) patterns_both None
         (heap_after_new [])
       = handler_ok [] (heap_after_new [])"
    by blast
  from at_active have match_same:
    "Enum_match (Enum_constructor \<lparr>name = ''Active'', args = None\<rparr>) patterns_both None
         (heap_after_new [])
       = Enum_match (Enum_constructor \<lparr>name = ''Active'', args = Some 0\<rparr>) patterns_both
           None (heap_after_new [])"
    by blast
  have ok: "handler_ok [] (heap_after_new []) = returns (JStr ''ok'') (heap_after_new [])"
    by (simp add: handler_ok_def)
  from empty resolved toString_absent toString_empty match_absent match_same ok
  show ?thesis
    by simp
qed

section \<open>Dispatch\<close>



text \<open>
  C2, as the specification states it, does not hold. For the variant named
  \<^verbatim>\<open>__proto__\<close> and the patterns \<^verbatim>\<open>{}\<close> there is no handler: the object has no own
  property, and what it inherits under that name is its prototype, an object that is not a
  function. That value is truthy, so \<^verbatim>\<open>match\<close> goes on to call it and fails with a
  TypeError, not with the error of a non-exhaustive match.
\<close>

theorem match_on_inherited_object_throws_TypeError:
  "own patterns_none = []
   \<and> \<not> is_function (Get patterns_none ''__proto__'')
   \<and> Enum_match (Enum_constructor \<lparr>name = ''__proto__'', args = None\<rparr>) patterns_none None
         empty_heap
       = throws TypeError empty_heap
   \<and> Enum_match (Enum_constructor \<lparr>name = ''__proto__'', args = None\<rparr>) patterns_none None
         empty_heap
       \<noteq> throws (NonExhaustiveMatchError ''__proto__'') empty_heap"
  by (simp add: Enum_match_def Enum_constructor_def NonExhaustiveMatchError_def
      patterns_none_def lookup_defs returns_def throws_def)

text \<open>
  C2, amended. When the active variant's name has no handler in \<open>patterns\<close> and none in
  \<open>defaultPatterns\<close> (what is read under the name is not a function in either, or
  \<open>defaultPatterns\<close> was not passed), \<^verbatim>\<open>match\<close> fails without calling anything. It
  fails with the error of a non-exhaustive match, whose message ends with the variant name
  between quotes, when what is read under the name is \<^verbatim>\<open>undefined\<close> or \<^verbatim>\<open>null\<close> in
  both; it fails with a TypeError when what is read in one of them is a truthy value that
  is not a function.
\<close>

theorem match_without_function_fails:
  assumes "\<not> is_function (Get patterns (name (variant this)))"
    and "case defaultPatterns of
           None \<Rightarrow> True
         | Some d \<Rightarrow> \<not> is_function (Get d (name (variant this)))"
  shows "(\<not> truthy (Get patterns (name (variant this)))
          \<and> (case defaultPatterns of
                None \<Rightarrow> True
              | Some d \<Rightarrow> \<not> truthy (Get d (name (variant this)))) \<longrightarrow>
          Enum_match this patterns defaultPatterns h
            = throws (NonExhaustiveMatchError (name (variant this))) h)
       \<and> (truthy (Get patterns (name (variant this)))
          \<or> (case defaultPatterns of
                None \<Rightarrow> False
              | Some d \<Rightarrow> truthy (Get d (name (variant this)))) \<longrightarrow>
          Enum_match this patterns defaultPatterns h = throws TypeError h)
       \<and> NonExhaustiveMatchError (name (variant this))
           = Error (''Non-exhaustive pattern matching: missing handler for variant ''
                    @ [CHR 0x27] @ name (variant this) @ [CHR 0x27])"
proof -
  let ?n = "name (variant this)"
  have no_function: "\<not> is_function (resolve patterns defaultPatterns ?n)"
    using assms by (simp add: resolve_def split: option.splits)
  have falsy: "Enum_match this patterns defaultPatterns h
                 = throws (NonExhaustiveMatchError ?n) h"
    if "\<not> truthy (Get patterns ?n)"
      and "case defaultPatterns of None \<Rightarrow> True | Some d \<Rightarrow> \<not> truthy (Get d ?n)"
  proof -
    from that have "\<not> truthy (resolve patterns defaultPatterns ?n)"
      by (simp add: resolve_def split: option.splits)
    then show ?thesis
      by (rule match_resolved_falsy)
  qed
  have truthy: "Enum_match this patterns defaultPatterns h = throws TypeError h"
    if "truthy (Get patterns ?n)
        \<or> (case defaultPatterns of None \<Rightarrow> False | Some d \<Rightarrow> truthy (Get d ?n))"
  proof -
    from that have "truthy (resolve patterns defaultPatterns ?n)"
      by (auto simp add: resolve_def split: option.splits)
    then show ?thesis
      using no_function by (rule match_resolved_not_callable)
  qed
  have message: "NonExhaustiveMatchError ?n
           = Error (''Non-exhaustive pattern matching: missing handler for variant ''
                    @ [CHR 0x27] @ ?n @ [CHR 0x27])"
    by (simp add: NonExhaustiveMatchError_def)
  from falsy truthy message show ?thesis
    by blast
qed

theorem match_without_function_fails_witness:
  "\<not> is_function (Get patterns_active (name (variant (instance0 ''Failed''))))
   \<and> \<not> is_function (Get patterns_null (name (variant (instance0 ''Failed''))))
   \<and> \<not> truthy (Get patterns_active (name (variant (instance0 ''Failed''))))
   \<and> \<not> truthy (Get patterns_null (name (variant (instance0 ''Failed''))))
   \<and> Enum_match (instance0 ''Failed'') patterns_active (Some patterns_null)
         (heap_after_new [JNum 500])
       = throws (Error (''Non-exhaustive pattern matching: missing handler for variant ''
                        @ [CHR 0x27] @ ''Failed'' @ [CHR 0x27]))
           (heap_after_new [JNum 500])
   \<and> \<not> is_function (Get patterns_active (name (variant (instance0 ''__proto__''))))
   \<and> truthy (Get patterns_active (name (variant (instance0 ''__proto__''))))
   \<and> Enum_match (instance0 ''__proto__'') patterns_active None (heap_after_new [JNum 500])
       = throws TypeError (heap_after_new [JNum 500])"
proof -
  have failed_name: "name (variant (instance0 ''Failed'')) = ''Failed''"
    by (simp add: example_defs)
  have no_function: "\<not> is_function (Get patterns_active (name (variant (instance0 ''Failed''))))"
    by (simp add: lookup_defs patterns_active_def example_defs)
  have no_function':
    "\<not> is_function (Get patterns_null (name (variant (instance0 ''Failed''))))"
    by (simp add: lookup_defs patterns_null_def example_defs)
  have falsy: "\<not> truthy (Get patterns_active (name (variant (instance0 ''Failed''))))"
    by (simp add: lookup_defs patterns_active_def example_defs)
  have falsy': "\<not> truthy (Get patterns_null (name (variant (instance0 ''Failed''))))"
    by (simp add: lookup_defs patterns_null_def example_defs)
  have defaults:
    "case Some patterns_null of
       None \<Rightarrow> True
     | Some d \<Rightarrow> \<not> is_function (Get d (name (variant (instance0 ''Failed''))))"
    using no_function' by simp
  have defaults_falsy:
    "case Some patterns_null of
       None \<Rightarrow> True
     | Some d \<Rightarrow> \<not> truthy (Get d (name (variant (instance0 ''Failed''))))"
    using falsy' by simp
  from match_without_function_fails
         [OF no_function defaults, of "heap_after_new [JNum 500]"] falsy defaults_falsy
  have "Enum_match (instance0 ''Failed'') patterns_active (Some patterns_null)
          (heap_after_new [JNum 500])
        = throws (NonExhaustiveMatchError (name (variant (instance0 ''Failed''))))
            (heap_after_new [JNum 500])"
    by blast
  then have unmatched:
    "Enum_match (instance0 ''Failed'') patterns_active (Some patterns_null)
       (heap_after_new [JNum 500])
     = throws (Error (''Non-exhaustive pattern matching: missing handler for variant ''
                      @ [CHR 0x27] @ ''Failed'' @ [CHR 0x27]))
         (heap_after_new [JNum 500])"
    by (simp add: failed_name NonExhaustiveMatchError_def)
  have inherited:
    "\<not> is_function (Get patterns_active (name (variant (instance0 ''__proto__''))))"
    by (simp add: lookup_defs patterns_active_def example_defs)
  have inherited_truthy:
    "truthy (Get patterns_active (name (variant (instance0 ''__proto__''))))"
    by (simp add: lookup_defs patterns_active_def example_defs)
  have no_defaults:
    "case None of
       None \<Rightarrow> True
     | Some d \<Rightarrow> \<not> is_function (Get d (name (variant (instance0 ''__proto__''))))"
    by simp
  from match_without_function_fails
         [OF inherited no_defaults, of "heap_after_new [JNum 500]"] inherited_truthy
  have not_callable:
    "Enum_match (instance0 ''__proto__'') patterns_active None (heap_after_new [JNum 500])
       = throws TypeError (heap_after_new [JNum 500])"
    by blast
  from no_function no_function' falsy falsy' unmatched inherited inherited_truthy not_callable
  show ?thesis
    by (intro conjI)
qed

text \<open>
  C10. The handler is read by ordinary property access, so what an object literal inherits
  counts. For the variant named \<^verbatim>\<open>toString\<close> and the patterns \<^verbatim>\<open>{}\<close>, which has no
  own property at all, \<^verbatim>\<open>match\<close> does not fail with the error of a non-exhaustive match:
  it calls \<^verbatim>\<open>Object.prototype.toString\<close> as the handler and returns its result.
\<close>

theorem inherited_function_is_invoked_as_handler:
  "own patterns_none = []
   \<and> Get patterns_none ''toString'' = PFunction Object_prototype_toString
   \<and> Enum_match (Enum_constructor \<lparr>name = ''toString'', args = None\<rparr>) patterns_none None h
       = Object_prototype_toString [] h
   \<and> Enum_match (Enum_constructor \<lparr>name = ''toString'', args = None\<rparr>) patterns_none None h
       = returns (JStr ''[object Undefined]'') h
   \<and> Enum_match (Enum_constructor \<lparr>name = ''toString'', args = None\<rparr>) patterns_none None h
       \<noteq> throws (NonExhaustiveMatchError ''toString'') h"
proof -
  have inherited: "Get patterns_none ''toString'' = PFunction Object_prototype_toString"
    by (simp add: lookup_defs patterns_none_def)
  then have "resolve patterns_none None
               (name (variant (Enum_constructor \<lparr>name = ''toString'', args = None\<rparr>)))
             = PFunction Object_prototype_toString"
    by (simp add: resolve_def Enum_constructor_def)
  from match_resolved_function [OF this, of h]
  have called:
    "Enum_match (Enum_constructor \<lparr>name = ''toString'', args = None\<rparr>) patterns_none None h
       = Object_prototype_toString [] h"
    by (simp add: payload_def Enum_constructor_def)
  have result: "Object_prototype_toString [] h = returns (JStr ''[object Undefined]'') h"
    by (simp add: Object_prototype_toString_def)
  have differs: "returns (JStr ''[object Undefined]'') h
                   \<noteq> throws (NonExhaustiveMatchError ''toString'') h"
    by (simp add: returns_def throws_def)
  have no_own: "own patterns_none = []"
    by (simp add: patterns_none_def)
  from no_own inherited called result differs show ?thesis
    by simp
qed

section \<open>Rendering\<close>

text \<open>
  C5, as the specification states it, does not hold: \<^verbatim>\<open>toString()\<close> throws when the
  payload holds a Symbol, and \<^verbatim>\<open>undefined\<close> in the payload is rendered as the empty
  string, not by its string conversion \<^verbatim>\<open>"undefined"\<close>.
\<close>

theorem toString_throws_on_symbol_payload:
  "variant_factory Enum_constructor ''Some'' [JSymbol ''id''] empty_heap
     = returns (instance0 ''Some'') (heap_after_new [JSymbol ''id''])
   \<and> Enum_toString (instance0 ''Some'') (heap_after_new [JSymbol ''id''])
       = throws TypeError (heap_after_new [JSymbol ''id''])
   \<and> variant_factory Enum_constructor ''Ok'' [JUndefined] empty_heap
       = returns (instance0 ''Ok'') (heap_after_new [JUndefined])
   \<and> Enum_toString (instance0 ''Ok'') (heap_after_new [JUndefined])
       = returns ''Ok()'' (heap_after_new [JUndefined])
   \<and> ToString JUndefined = Inr ''undefined''"
  by (simp add: variant_factory_def Enum_toString_def Array_join_def join_element_def
      example_defs)

text \<open>
  C5, amended. \<^verbatim>\<open>toString()\<close> returns exactly the variant name when the payload is
  empty. Otherwise the payload elements are converted in order as \<^verbatim>\<open>Array.prototype.join\<close>
  converts them: \<^verbatim>\<open>undefined\<close> and \<^verbatim>\<open>null\<close> to the empty string, every other value by
  its own string conversion. When every conversion succeeds \<^verbatim>\<open>toString()\<close> returns the
  name followed by the converted values, joined by \<^verbatim>\<open>", "\<close> in their order and enclosed
  in parentheses; when one fails, \<^verbatim>\<open>toString()\<close> throws the error of the first that
  fails.
\<close>

theorem toString_renders_name_and_joined_payload:
  "(payload h this = [] \<longrightarrow> Enum_toString this h = returns (name (variant this)) h)
   \<and> (payload h' this' \<noteq> [] \<and> map join_element (payload h' this') = map Inr ss \<longrightarrow>
        Enum_toString this' h'
          = returns (name (variant this') @ ''('' @ separated '', '' ss @ '')'') h')
   \<and> (payload h'' this'' = pre @ x # post \<and> map join_element pre = map Inr ss'
        \<and> join_element x = Inl e \<longrightarrow>
        Enum_toString this'' h'' = throws e h'')
   \<and> join_element JUndefined = Inr []
   \<and> join_element JNull = Inr []
   \<and> (v \<noteq> JUndefined \<and> v \<noteq> JNull \<longrightarrow> join_element v = ToString v)"
proof -
  have bare: "Enum_toString this h = returns (name (variant this)) h"
    if "payload h this = []"
    using that by (simp add: Enum_toString_def payload_def split: option.splits)
  have rendered: "Enum_toString this' h'
          = returns (name (variant this') @ ''('' @ separated '', '' ss @ '')'') h'"
    if "payload h' this' \<noteq> []" and "map join_element (payload h' this') = map Inr ss"
    using that
    by (auto simp add: Enum_toString_def payload_def Array_join_converted
        split: option.splits)
  have failing: "Enum_toString this'' h'' = throws e h''"
    if "payload h'' this'' = pre @ x # post" and "map join_element pre = map Inr ss'"
      and "join_element x = Inl e"
    using that
    by (auto simp add: Enum_toString_def payload_def Array_join_failing
        split: option.splits)
  have elements: "join_element JUndefined = Inr []" "join_element JNull = Inr []"
    "v \<noteq> JUndefined \<and> v \<noteq> JNull \<longrightarrow> join_element v = ToString v"
    by (simp_all add: join_element_def)
  from bare rendered failing elements show ?thesis
    by blast
qed

theorem toString_renders_name_and_joined_payload_witness:
  "payload (heap_after_new []) (instance0 ''Active'') = []
   \<and> Enum_toString (instance0 ''Active'') (heap_after_new [])
       = returns ''Active'' (heap_after_new [])
   \<and> map join_element (payload (heap_after_new [JNum 404, JNull, JStr ''gone''])
                          (instance0 ''Failed''))
       = map Inr [''404'', [], ''gone'']
   \<and> Enum_toString (instance0 ''Failed'') (heap_after_new [JNum 404, JNull, JStr ''gone''])
       = returns ''Failed(404, , gone)'' (heap_after_new [JNum 404, JNull, JStr ''gone''])
   \<and> payload (heap_after_new [JStr ''a'', JSymbol ''id'']) (instance0 ''Some'')
       = [JStr ''a''] @ JSymbol ''id'' # []
   \<and> join_element (JSymbol ''id'') = Inl TypeError
   \<and> Enum_toString (instance0 ''Some'') (heap_after_new [JStr ''a'', JSymbol ''id''])
       = throws TypeError (heap_after_new [JStr ''a'', JSymbol ''id''])
   \<and> join_element (JBool True) = Inr ''true''"
proof -
  note at_scenario = toString_renders_name_and_joined_payload
    [where h = "heap_after_new []" and this = "instance0 ''Active''"
       and h' = "heap_after_new [JNum 404, JNull, JStr ''gone'']"
       and this' = "instance0 ''Failed''" and ss = "[''404'', [], ''gone'']"
       and h'' = "heap_after_new [JStr ''a'', JSymbol ''id'']"
       and this'' = "instance0 ''Some''" and pre = "[JStr ''a'']" and x = "JSymbol ''id''"
       and post = "[]" and ss' = "[''a'']" and e = TypeError and v = "JBool True"]
  have empty: "payload (heap_after_new []) (instance0 ''Active'') = []"
    by (simp add: example_defs)
  have nonempty:
    "payload (heap_after_new [JNum 404, JNull, JStr ''gone'']) (instance0 ''Failed'') \<noteq> []"
    by (simp add: example_defs)
  have converted:
    "map join_element (payload (heap_after_new [JNum 404, JNull, JStr ''gone''])
                         (instance0 ''Failed''))
       = map Inr [''404'', [], ''gone'']"
    by (simp add: example_defs join_element_def Number_toString_def digits.simps)
  have split: "payload (heap_after_new [JStr ''a'', JSymbol ''id'']) (instance0 ''Some'')
       = [JStr ''a''] @ JSymbol ''id'' # []"
    by (simp add: example_defs)
  have before: "map join_element [JStr ''a''] = map Inr [''a'']"
    by (simp add: join_element_def)
  have symbol: "join_element (JSymbol ''id'') = Inl TypeError"
    by (simp add: join_element_def)
  have bool: "JBool True \<noteq> JUndefined \<and> JBool True \<noteq> JNull"
    by simp
  from at_scenario empty
  have bare: "Enum_toString (instance0 ''Active'') (heap_after_new [])
       = returns (name (variant (instance0 ''Active''))) (heap_after_new [])"
    by blast
  from at_scenario nonempty converted
  have rendered:
    "Enum_toString (instance0 ''Failed'') (heap_after_new [JNum 404, JNull, JStr ''gone''])
       = returns (name (variant (instance0 ''Failed'')) @ ''(''
                  @ separated '', '' [''404'', [], ''gone''] @ '')'')
           (heap_after_new [JNum 404, JNull, JStr ''gone''])"
    by blast
  from at_scenario split before symbol
  have thrown:
    "Enum_toString (instance0 ''Some'') (heap_after_new [JStr ''a'', JSymbol ''id''])
       = throws TypeError (heap_after_new [JStr ''a'', JSymbol ''id''])"
    by blast
  from at_scenario bool have "join_element (JBool True) = ToString (JBool True)"
    by blast
  then have true: "join_element (JBool True) = Inr ''true''"
    by simp
  have names: "name (variant (instance0 ''Active'')) = ''Active''"
    "name (variant (instance0 ''Failed'')) @ ''('' @ separated '', '' [''404'', [], ''gone'']
       @ '')'' = ''Failed(404, , gone)''"
    by (simp_all add: instance0_def Enum_constructor_def)
  from empty bare converted rendered split symbol thrown true names show ?thesis
    by simp
qed

section \<open>Immutability and effects\<close>




text \<open>
  C8, as the specification states it, does not hold for \<^verbatim>\<open>match\<close>, which runs a handler
  of the caller: with a handler that assigns to an array of the caller the store is changed
  when \<^verbatim>\<open>match\<close> returns, and with a handler that never returns \<^verbatim>\<open>match\<close> does not
  return.
\<close>

theorem match_runs_effects_of_handler:
  "variant_factory Enum_constructor ''Active'' [] (heap_after_new [])
     = returns (instance1 ''Active'') (heap_after_second [] [])
   \<and> Enum_match (instance1 ''Active'') patterns_writing None (heap_after_second [] [])
       = returns JUndefined (array_store 0 0 (JNum 1) (heap_after_second [] []))
   \<and> arrays (heap_after_second [] []) 0 = []
   \<and> arrays (array_store 0 0 (JNum 1) (heap_after_second [] [])) 0 = [JNum 1]
   \<and> Enum_match (instance1 ''Active'') patterns_looping None (heap_after_second [] []) = None"
  by (simp add: variant_factory_def Enum_match_def handler_writing_def handler_looping_def
      array_store_def lookup_defs patterns_writing_def
      patterns_looping_def heap_after_second_def instance1_def example_defs)

text \<open>
  C8, amended. Factory construction (with a concrete class that runs the base constructor),
  \<^verbatim>\<open>is\<close>, \<^verbatim>\<open>toString\<close> (on payload values whose string conversion has no effect),
  \<^verbatim>\<open>unwrap\<close> and \<^verbatim>\<open>unwrapTuple\<close> always complete and leave the store as it was, but
  for the one new array of the factory. \<^verbatim>\<open>match\<close> adds no effect of its own: when it
  resolves no function it fails at once with the store unchanged; when it resolves one, it
  completes exactly as the call of that handler on the payload does, with that call's
  result and store.
\<close>

theorem operations_add_no_effect_of_their_own:
  "(\<exists>this' h'. variant_factory Enum_constructor k p h = returns this' h'
       \<and> next_ref h' = Suc (next_ref h)
       \<and> (\<forall>b. b \<noteq> next_ref h \<longrightarrow> arrays h' b = arrays h b))
   \<and> (\<exists>r. Enum_is this w h = returns r h)
   \<and> (\<exists>r. Enum_toString this h = Some (r, h))
   \<and> (\<exists>r. Enum_unwrap this h = Some (r, h))
   \<and> (\<exists>r. Enum_unwrapTuple this h = Some (r, h))
   \<and> (\<not> is_function (resolve patterns d (name (variant this))) \<longrightarrow>
        (\<exists>e. Enum_match this patterns d h = throws e h))
   \<and> (resolve patterns' d' (name (variant this)) = PFunction f \<longrightarrow>
        Enum_match this patterns' d' h = f (payload h this) h)"
proof -
  have "\<exists>this' h'. variant_factory Enum_constructor k p h = returns this' h'
       \<and> next_ref h' = Suc (next_ref h)
       \<and> (\<forall>b. b \<noteq> next_ref h \<longrightarrow> arrays h' b = arrays h b)"
    by (simp add: variant_factory_def new_array_def returns_def)
  moreover
  have "\<exists>r. Enum_is this w h = returns r h"
    unfolding Enum_is_def by (rule exI) (rule refl)
  moreover
  have "\<exists>r. Enum_toString this h = Some (r, h)"
    by (simp add: Enum_toString_def returns_def throws_def split: option.splits sum.splits)
  moreover
  have "\<exists>r. Enum_unwrap this h = Some (r, h)"
    by (simp add: Enum_unwrap_def returns_def throws_def split: option.splits)
  moreover
  have "\<exists>r. Enum_unwrapTuple this h = Some (r, h)"
    by (simp add: Enum_unwrapTuple_def returns_def throws_def split: option.splits)
  moreover
  have "\<exists>e. Enum_match this patterns d h = throws e h"
    if "\<not> is_function (resolve patterns d (name (variant this)))"
  proof (cases "truthy (resolve patterns d (name (variant this)))")
    case True
    from match_resolved_not_callable [OF True that] show ?thesis
      by blast
  next
    case False
    from match_resolved_falsy [OF False] show ?thesis
      by blast
  qed
  moreover
  have "Enum_match this patterns' d' h = f (payload h this) h"
    if "resolve patterns' d' (name (variant this)) = PFunction f"
    using that by (rule match_resolved_function)
  ultimately show ?thesis
    by blast
qed

theorem operations_add_no_effect_of_their_own_witness:
  "(\<exists>this' h'. variant_factory Enum_constructor ''Active'' [] (heap_after_new [JNum 500])
                  = returns this' h'
       \<and> (0::nat) \<noteq> next_ref (heap_after_new [JNum 500])
       \<and> arrays h' 0 = [JNum 500])
   \<and> \<not> is_function (resolve patterns_active None (name (variant (instance0 ''Failed''))))
   \<and> (\<exists>e. Enum_match (instance0 ''Failed'') patterns_active None (heap_after_new [JNum 500])
              = throws e (heap_after_new [JNum 500]))
   \<and> resolve patterns_both None (name (variant (instance0 ''Failed''))) = PFunction handler_err
   \<and> Enum_match (instance0 ''Failed'') patterns_both None (heap_after_new [JNum 500])
       = returns (JStr ''err:500'') (heap_after_new [JNum 500])"
proof -
  note at_scenario = operations_add_no_effect_of_their_own
    [where this = "instance0 ''Failed''" and h = "heap_after_new [JNum 500]"
       and k = "''Active''" and p = "[]"
       and patterns = patterns_active and d = None
       and patterns' = patterns_both and d' = None and f = handler_err]
  have older: "(0::nat) \<noteq> next_ref (heap_after_new [JNum 500])"
    by (simp add: example_defs)
  have unresolved:
    "\<not> is_function (resolve patterns_active None (name (variant (instance0 ''Failed''))))"
    by (simp add: lookup_defs patterns_active_def example_defs)
  have resolved:
    "resolve patterns_both None (name (variant (instance0 ''Failed''))) = PFunction handler_err"
    by (simp add: lookup_defs patterns_both_def example_defs)
  from at_scenario obtain this' h' where
    made: "variant_factory Enum_constructor ''Active'' [] (heap_after_new [JNum 500])
             = returns this' h'"
    and untouched: "\<forall>b. b \<noteq> next_ref (heap_after_new [JNum 500]) \<longrightarrow>
                      arrays h' b = arrays (heap_after_new [JNum 500]) b"
    by blast
  have "arrays h' 0 = arrays (heap_after_new [JNum 500]) 0"
    using untouched [rule_format, OF older] .
  then have kept: "arrays h' 0 = [JNum 500]"
    by (simp add: example_defs)
  from made older kept
  have factory: "\<exists>this' h'. variant_factory Enum_constructor ''Active'' []
                    (heap_after_new [JNum 500]) = returns this' h'
       \<and> (0::nat) \<noteq> next_ref (heap_after_new [JNum 500])
       \<and> arrays h' 0 = [JNum 500]"
    by blast
  from at_scenario unresolved
  have failed: "\<exists>e. Enum_match (instance0 ''Failed'') patterns_active None
                      (heap_after_new [JNum 500]) = throws e (heap_after_new [JNum 500])"
    by blast
  from at_scenario resolved
  have "Enum_match (instance0 ''Failed'') patterns_both None (heap_after_new [JNum 500])
       = handler_err (payload (heap_after_new [JNum 500]) (instance0 ''Failed''))
           (heap_after_new [JNum 500])"
    by blast
  then have called:
    "Enum_match (instance0 ''Failed'') patterns_both None (heap_after_new [JNum 500])
       = returns (JStr ''err:500'') (heap_after_new [JNum 500])"
    by (simp add: handler_err_def arg0_def Number_toString_def digits.simps example_defs)
  from factory unresolved failed resolved called show ?thesis
    by blast
qed

end
